theory Spec2Isabelle
  imports Complex_Main
begin

section \<open>Lane boundary tracking of \<open>advanced_lane_lines.ipynb\<close>\<close>

text \<open>
  The notebook's lane tracking functions \<open>sliding_window\<close>, \<open>subsequent_frame\<close>,
  \<open>calculate_curvature\<close>, \<open>overlay_lane_lines\<close> and \<open>process_image\<close> as HOL functions.
  Exceptions are values of a sum type, the module-level variables of \<open>process_image\<close>
  are a record passed in and returned, and the module-level image \<open>warped_binary\<close> that
  \<open>sliding_window\<close> reads is an explicit argument.

  Floating-point numbers are modelled by the reals (with the non-finite results of a
  numpy division written out); the numerical kernel of \<open>np.polyfit\<close> is an argument
  \<open>pf\<close> of the functions that fit.
\<close>

subsection \<open>Exceptions\<close>

datatype error = TypeError | ValueError | IndexError | LinAlgError

subsection \<open>numpy arrays\<close>

text \<open>
  A two-dimensional array is a list of rows. A three-channel image (the result of
  \<open>np.dstack((binary, binary, binary))\<close> after warping) is a list of rows of triples.
\<close>

type_synonym pixel3 = "nat \<times> nat \<times> nat"

datatype image = Gray "nat list list" | Color "pixel3 list list"

text \<open>\<open>img.shape[0]\<close> and \<open>img.shape[1]\<close>.\<close>

definition shape0 :: "image \<Rightarrow> nat" where
  "shape0 img = (case img of Gray rows \<Rightarrow> length rows | Color rows \<Rightarrow> length rows)"

definition shape1 :: "image \<Rightarrow> nat" where
  "shape1 img = (case img of
      Gray rows \<Rightarrow> (case rows of [] \<Rightarrow> 0 | r # _ \<Rightarrow> length r)
    | Color rows \<Rightarrow> (case rows of [] \<Rightarrow> 0 | r # _ \<Rightarrow> length r))"

text \<open>
  \<open>img.nonzero()\<close>, as the list of (\<open>nonzero[0]\<close>, \<open>nonzero[1]\<close>) pairs, that is (y, x), in
  numpy's row-major order. On a three-channel array every nonzero channel value is an
  entry of its own, so a pixel that is set in all three channels occurs three times.
\<close>

definition gray_entries :: "nat \<Rightarrow> nat \<times> nat \<Rightarrow> (nat \<times> nat) list" where
  "gray_entries y p = (case p of (x, v) \<Rightarrow> if v \<noteq> 0 then [(y, x)] else [])"

definition color_entries :: "nat \<Rightarrow> nat \<times> pixel3 \<Rightarrow> (nat \<times> nat) list" where
  "color_entries y p = (case p of (x, (a, b, c)) \<Rightarrow>
      (if a \<noteq> 0 then [(y, x)] else []) @
      (if b \<noteq> 0 then [(y, x)] else []) @
      (if c \<noteq> 0 then [(y, x)] else []))"

definition nonzero :: "image \<Rightarrow> (nat \<times> nat) list" where
  "nonzero img = (case img of
      Gray rows \<Rightarrow>
        concat (map (\<lambda>(y, row). concat (map (gray_entries y) (enumerate 0 row)))
                    (enumerate 0 rows))
    | Color rows \<Rightarrow>
        concat (map (\<lambda>(y, row). concat (map (color_entries y) (enumerate 0 row)))
                    (enumerate 0 rows)))"

text \<open>
  \<open>undist_pipeline_warp\<close> stacks one binary image three times and warps it, so in the
  masks it returns the three channels of every pixel are equal.
\<close>

definition equal_channels :: "image \<Rightarrow> bool" where
  "equal_channels m =
     (case m of
        Gray _ \<Rightarrow> False
      | Color rows \<Rightarrow> list_all (list_all (\<lambda>(a, b, c). a = b \<and> b = c)) rows)"

text \<open>\<open>np.sum(a, axis=0)\<close> of a two-dimensional array with \<open>w\<close> columns.\<close>

definition column_sums :: "nat \<Rightarrow> nat list list \<Rightarrow> nat list" where
  "column_sums w rows = foldr (\<lambda>row acc. map2 (+) row acc) rows (replicate w 0)"

text \<open>
  \<open>np.argmax\<close>: the first index of the largest value; \<open>ValueError\<close> on an empty array.
\<close>

fun argmax_from :: "nat \<Rightarrow> nat \<Rightarrow> nat \<Rightarrow> nat list \<Rightarrow> nat" where
  "argmax_from best bestv i [] = best"
| "argmax_from best bestv i (v # vs) =
     (if bestv < v then argmax_from i v (Suc i) vs else argmax_from best bestv (Suc i) vs)"

definition argmax :: "nat list \<Rightarrow> error + nat" where
  "argmax xs = (case xs of [] \<Rightarrow> Inl ValueError | v # vs \<Rightarrow> Inr (argmax_from 0 v 1 vs))"

subsection \<open>Floating-point values\<close>

text \<open>
  The result of a numpy floating-point division: dividing by zero does not raise, it
  gives a signed infinity or NaN (with a \<open>RuntimeWarning\<close>).
\<close>

datatype npfloat = Fin real | PosInf | NegInf | NaN

definition np_divide :: "real \<Rightarrow> real \<Rightarrow> npfloat" where
  "np_divide x y =
     (if y \<noteq> 0 then Fin (x / y)
      else if 0 < x then PosInf else if x < 0 then NegInf else NaN)"

text \<open>Dividing by 1000, rounding and halving keep an infinity or a NaN as it is.\<close>

fun np_lift :: "(real \<Rightarrow> real) \<Rightarrow> npfloat \<Rightarrow> npfloat" where
  "np_lift f (Fin r) = Fin (f r)"
| "np_lift f PosInf = PosInf"
| "np_lift f NegInf = NegInf"
| "np_lift f NaN = NaN"

fun np_add :: "npfloat \<Rightarrow> npfloat \<Rightarrow> npfloat" where
  "np_add (Fin a) (Fin b) = Fin (a + b)"
| "np_add NaN _ = NaN"
| "np_add _ NaN = NaN"
| "np_add PosInf NegInf = NaN"
| "np_add NegInf PosInf = NaN"
| "np_add PosInf _ = PosInf"
| "np_add _ PosInf = PosInf"
| "np_add NegInf _ = NegInf"
| "np_add _ NegInf = NegInf"

text \<open>Rounding to the nearest integer, ties to the even one.\<close>

definition rint :: "real \<Rightarrow> int" where
  "rint x =
     (let f = \<lfloor>x\<rfloor>; d = x - of_int f
      in if d < 1 / 2 then f else if 1 / 2 < d then f + 1
         else if even f then f else f + 1)"

text \<open>\<open>round(x, 1)\<close>.\<close>

definition round1 :: "real \<Rightarrow> real" where
  "round1 x = of_int (rint (x * 10)) / 10"

subsection \<open>Polynomial fits\<close>

text \<open>A fit is the coefficient array of \<open>np.polyfit(_, _, 2)\<close>: highest degree first.\<close>

type_synonym fit = "real \<times> real \<times> real"

type_synonym polyfit_kernel = "real list \<Rightarrow> real list \<Rightarrow> fit"

text \<open>
  \<open>np.polyfit(x, y, 2)\<close>. It raises \<open>TypeError\<close> on an empty \<open>x\<close> and on vectors of
  different lengths. It then divides the columns \<open>x\<^sup>2\<close>, \<open>x\<close>, \<open>1\<close> of the Vandermonde
  matrix by their norms: when every value in \<open>x\<close> is 0 the first two norms are 0, the
  matrix holds NaN and the least-squares solver raises \<open>LinAlgError\<close>. On fewer than
  three different values in \<open>x\<close> it warns (\<open>RankWarning\<close>) and returns. The solver
  itself is the argument \<open>pf\<close>.
\<close>

definition polyfit :: "polyfit_kernel \<Rightarrow> real list \<Rightarrow> real list \<Rightarrow> error + fit" where
  "polyfit pf x y =
     (if x = [] then Inl TypeError
      else if length x \<noteq> length y then Inl TypeError
      else if list_all (\<lambda>v. v = 0) x then Inl LinAlgError
      else Inr (pf x y))"

text \<open>\<open>fit[0]*y**2 + fit[1]*y + fit[2]\<close>.\<close>

definition poly_at :: "fit \<Rightarrow> real \<Rightarrow> real" where
  "poly_at f y = (case f of (a, b, c) \<Rightarrow> a * y ^ 2 + b * y + c)"

subsection \<open>Constants of the notebook\<close>

definition nwindows :: nat where "nwindows = 9"
definition margin :: int where "margin = 100"
definition minpix :: nat where "minpix = 50"
definition ym_per_pix :: real where "ym_per_pix = 30 / 720"
definition xm_per_pix :: real where "xm_per_pix = 3.7 / 700"

subsection \<open>Window Search: \<open>sliding_window\<close>\<close>

text \<open>The variables the loop over the windows updates.\<close>

record wstate =
  leftx_current :: int
  rightx_current :: int
  left_lane_inds :: "(nat \<times> nat) list list"
  right_lane_inds :: "(nat \<times> nat) list list"

text \<open>
  \<open>(nonzeroy >= win_y_low) & (nonzeroy < win_y_high) & (nonzerox >= win_x_low) &
  (nonzerox < win_x_high)\<close> at one entry (y, x) of \<open>nonzero\<close>.
\<close>

definition in_window :: "int \<Rightarrow> int \<Rightarrow> int \<Rightarrow> int \<Rightarrow> nat \<times> nat \<Rightarrow> bool" where
  "in_window win_y_low win_y_high win_x_low win_x_high p =
     (case p of (y, x) \<Rightarrow>
        win_y_low \<le> int y \<and> int y < win_y_high \<and> win_x_low \<le> int x \<and> int x < win_x_high)"

text \<open>
  \<open>np.int(np.mean(xs))\<close> for a non-empty array of pixel columns: the mean is not
  negative, so the conversion takes its integer part. (The sum of the columns of one
  image is far below \<open>2^53\<close>, so the floating-point mean has the same integer part as
  the exact quotient.)
\<close>

definition int_mean :: "nat list \<Rightarrow> int" where
  "int_mean xs = int (sum_list xs div length xs)"

text \<open>
  One pass of the body of \<open>for window in range(nwindows)\<close>. \<open>h\<close> is
  \<open>binary_warped.shape[0]\<close>, \<open>nz\<close> the entries of \<open>nonzero\<close>. The indices the source
  collects are kept as the entries they select. The two \<open>cv2.rectangle\<close> calls only
  draw on \<open>out_img\<close>.
\<close>

definition window_step :: "nat \<Rightarrow> nat \<Rightarrow> (nat \<times> nat) list \<Rightarrow> wstate \<Rightarrow> nat \<Rightarrow> wstate" where
  "window_step h window_height nz s window =
     (let win_y_low = int h - (int window + 1) * int window_height;
          win_y_high = int h - int window * int window_height;
          win_xleft_low = leftx_current s - margin;
          win_xleft_high = leftx_current s + margin;
          win_xright_low = rightx_current s - margin;
          win_xright_high = rightx_current s + margin;
          good_left_inds = filter (in_window win_y_low win_y_high win_xleft_low win_xleft_high) nz;
          good_right_inds = filter (in_window win_y_low win_y_high win_xright_low win_xright_high) nz
      in \<lparr> leftx_current =
             (if minpix < length good_left_inds then int_mean (map snd good_left_inds)
              else leftx_current s),
           rightx_current =
             (if minpix < length good_right_inds then int_mean (map snd good_right_inds)
              else rightx_current s),
           left_lane_inds = left_lane_inds s @ [good_left_inds],
           right_lane_inds = right_lane_inds s @ [good_right_inds] \<rparr>)"

text \<open>
  The search part of \<open>sliding_window(binary_warped)\<close>, up to the pixel positions
  \<open>(lefty, leftx)\<close> and \<open>(righty, rightx)\<close>. The histogram and the window rows come from
  the argument \<open>binary_warped\<close>; the window height and the nonzero entries come from the
  module-level \<open>warped_binary\<close>, which the source names there. \<open>binary_warped[:,:,0]\<close>
  raises \<open>IndexError\<close> on a two-dimensional array, and so does the colouring of
  \<open>out_img\<close> (a copy of \<open>binary_warped\<close>) at an entry outside of it.
\<close>

definition sliding_window_pixels ::
  "image \<Rightarrow> image \<Rightarrow> error + (int \<times> (nat \<times> nat) list \<times> (nat \<times> nat) list)" where
  "sliding_window_pixels warped_binary binary_warped =
     (case binary_warped of
        Gray _ \<Rightarrow> Inl IndexError
      | Color rows \<Rightarrow>
         (let single_channel = map (map fst) rows;
              histogram = column_sums (shape1 binary_warped)
                            (drop (length single_channel div 2) single_channel);
              midpoint = length histogram div 2
          in case argmax (take midpoint histogram) of
               Inl e \<Rightarrow> Inl e
             | Inr leftx_base \<Rightarrow>
                (case argmax (drop midpoint histogram) of
                   Inl e \<Rightarrow> Inl e
                 | Inr r \<Rightarrow>
                    (let rightx_base = r + midpoint;
                         center_offset = int ((leftx_base + rightx_base) div 2) - int midpoint;
                         window_height = shape0 warped_binary div nwindows;
                         nz = nonzero warped_binary;
                         s = foldl (window_step (shape0 binary_warped) window_height nz)
                               \<lparr> leftx_current = int leftx_base,
                                 rightx_current = int rightx_base,
                                 left_lane_inds = [], right_lane_inds = [] \<rparr>
                               [0..<nwindows];
                         left = concat (left_lane_inds s);
                         right = concat (right_lane_inds s)
                     in if list_ex (\<lambda>(y, x). \<not> (y < shape0 binary_warped \<and> x < shape1 binary_warped))
                             (left @ right)
                        then Inl IndexError
                        else Inr (center_offset, left, right)))))"

text \<open>
  \<open>sliding_window\<close>: the search, the flag \<open>lanes_detected\<close>, then the two fits, which
  are made whatever the flag is.
\<close>

definition sliding_window ::
  "polyfit_kernel \<Rightarrow> image \<Rightarrow> image \<Rightarrow> error + (bool \<times> int \<times> fit \<times> fit)" where
  "sliding_window pf warped_binary binary_warped =
     (case sliding_window_pixels warped_binary binary_warped of
        Inl e \<Rightarrow> Inl e
      | Inr (center_offset, left, right) \<Rightarrow>
         (let lanes_detected = (1 < length left \<and> 1 < length right)
          in case polyfit pf (map (real \<circ> fst) left) (map (real \<circ> snd) left) of
               Inl e \<Rightarrow> Inl e
             | Inr left_fit \<Rightarrow>
                (case polyfit pf (map (real \<circ> fst) right) (map (real \<circ> snd) right) of
                   Inl e \<Rightarrow> Inl e
                 | Inr right_fit \<Rightarrow> Inr (lanes_detected, center_offset, left_fit, right_fit))))"

subsection \<open>Targeted Search: \<open>subsequent_frame\<close>\<close>

text \<open>
  \<open>(nonzerox > fit(nonzeroy) - margin) & (nonzerox < fit(nonzeroy) + margin)\<close> at one
  entry (y, x).
\<close>

definition near_fit :: "fit \<Rightarrow> nat \<times> nat \<Rightarrow> bool" where
  "near_fit f p =
     (case p of (y, x) \<Rightarrow>
        poly_at f (real y) - real_of_int margin < real x \<and>
        real x < poly_at f (real y) + real_of_int margin)"

text \<open>The pixel positions \<open>(lefty, leftx)\<close> and \<open>(righty, rightx)\<close> of \<open>subsequent_frame\<close>.\<close>

definition subsequent_frame_pixels ::
  "image \<Rightarrow> fit \<Rightarrow> fit \<Rightarrow> (nat \<times> nat) list \<times> (nat \<times> nat) list" where
  "subsequent_frame_pixels binary_warped left_fit right_fit =
     (let nz = nonzero binary_warped
      in (filter (near_fit left_fit) nz, filter (near_fit right_fit) nz))"

text \<open>
  \<open>subsequent_frame(binary_warped, left_fit, right_fit)\<close>. The stored fits are optional:
  \<open>None\<close> is the empty list the module starts with, whose first coefficient cannot be
  read (\<open>IndexError\<close>). The fitted x values the source computes before it returns are
  not used.
\<close>

definition subsequent_frame ::
  "polyfit_kernel \<Rightarrow> image \<Rightarrow> fit option \<Rightarrow> fit option \<Rightarrow> error + (bool \<times> int \<times> fit \<times> fit)" where
  "subsequent_frame pf binary_warped left_fit right_fit =
     (let single_channel = (case binary_warped of
                              Color rows \<Rightarrow> map (map fst) rows
                            | Gray rows \<Rightarrow> rows);
          histogram = column_sums (shape1 binary_warped)
                        (drop (length single_channel div 2) single_channel);
          midpoint = length histogram div 2
      in case argmax (take midpoint histogram) of
           Inl e \<Rightarrow> Inl e
         | Inr leftx_base \<Rightarrow>
            (case argmax (drop midpoint histogram) of
               Inl e \<Rightarrow> Inl e
             | Inr r \<Rightarrow>
                (let rightx_base = r + midpoint;
                     center_offset = int ((leftx_base + rightx_base) div 2) - int midpoint
                 in case (left_fit, right_fit) of
                      (Some lf, Some rf) \<Rightarrow>
                        (case subsequent_frame_pixels binary_warped lf rf of
                           (left, right) \<Rightarrow>
                            (let lanes_detected = (1 < length left \<and> 1 < length right)
                             in case polyfit pf (map (real \<circ> fst) left) (map (real \<circ> snd) left) of
                                  Inl e \<Rightarrow> Inl e
                                | Inr left_fit' \<Rightarrow>
                                   (case polyfit pf (map (real \<circ> fst) right) (map (real \<circ> snd) right) of
                                      Inl e \<Rightarrow> Inl e
                                    | Inr right_fit' \<Rightarrow>
                                       Inr (lanes_detected, center_offset, left_fit', right_fit'))))
                    | _ \<Rightarrow> Inl IndexError)))"

subsection \<open>Geometry: \<open>calculate_curvature\<close>\<close>

text \<open>
  \<open>((1 + (2*fit[0]*y + fit[1])**2)**1.5) / np.absolute(2*fit[0])\<close>, the radius of
  curvature of a fit at the ordinate \<open>y\<close>.
\<close>

definition curverad :: "fit \<Rightarrow> real \<Rightarrow> npfloat" where
  "curverad f y =
     (case f of (a, b, c) \<Rightarrow> np_divide ((1 + (2 * a * y + b) ^ 2) powr 1.5) \<bar>2 * a\<bar>)"

text \<open>
  \<open>calculate_curvature(midoffset, leftx, rightx, ploty)\<close>, which returns
  \<open>(position, curvature)\<close>. The radii in pixel space that the source computes first are
  overwritten by the metric ones and raise nothing; their fits are made all the same.
\<close>

definition calculate_curvature ::
  "polyfit_kernel \<Rightarrow> int \<Rightarrow> real list \<Rightarrow> real list \<Rightarrow> real list \<Rightarrow> error + (real \<times> npfloat)" where
  "calculate_curvature pf midoffset leftx rightx ploty =
     (case polyfit pf ploty leftx of
        Inl e \<Rightarrow> Inl e
      | Inr left_fit \<Rightarrow>
         (case polyfit pf ploty rightx of
            Inl e \<Rightarrow> Inl e
          | Inr right_fit \<Rightarrow>
             (let y_eval = Max (set ploty)
              in case polyfit pf (map (\<lambda>y. y * ym_per_pix) ploty) (map (\<lambda>x. x * xm_per_pix) leftx) of
                   Inl e \<Rightarrow> Inl e
                 | Inr left_fit_cr \<Rightarrow>
                    (case polyfit pf (map (\<lambda>y. y * ym_per_pix) ploty)
                            (map (\<lambda>x. x * xm_per_pix) rightx) of
                       Inl e \<Rightarrow> Inl e
                     | Inr right_fit_cr \<Rightarrow>
                        (let left_curverad = curverad left_fit_cr (y_eval * ym_per_pix);
                             right_curverad = curverad right_fit_cr (y_eval * ym_per_pix);
                             curvature =
                               np_lift (\<lambda>r. 0.5 * r)
                                 (np_add (np_lift round1 (np_lift (\<lambda>r. r / 1000) right_curverad))
                                         (np_lift round1 (np_lift (\<lambda>r. r / 1000) left_curverad)));
                             position = round1 (100 * real_of_int midoffset * xm_per_pix)
                         in Inr (position, curvature))))))"

subsection \<open>Rendering: \<open>overlay_lane_lines\<close>\<close>

text \<open>
  What \<open>process_image\<close> returns: the undistorted frame, or the frame with the lane
  polygon of \<open>left_fitx\<close>, \<open>right_fitx\<close> over \<open>yvals\<close> and the two text lines (position in
  cm, curvature in km). The drawing itself is OpenCV's.
\<close>

datatype frame_out = Undistorted | Overlaid "real list" "real list" "real list" real npfloat

definition overlay_lane_lines ::
  "polyfit_kernel \<Rightarrow> int \<Rightarrow> real list \<Rightarrow> real list \<Rightarrow> real list \<Rightarrow> error + frame_out" where
  "overlay_lane_lines pf midoffset left_fitx right_fitx yvals =
     (case calculate_curvature pf midoffset left_fitx right_fitx yvals of
        Inl e \<Rightarrow> Inl e
      | Inr (position, curvature) \<Rightarrow>
          Inr (Overlaid left_fitx right_fitx yvals position curvature))"

subsection \<open>The tracker: \<open>process_image\<close>\<close>

text \<open>
  The module-level variables \<open>lanes_detected\<close> (\<open>None\<close>, \<open>True\<close> or \<open>False\<close>), \<open>left_fit\<close>
  and \<open>right_fit\<close> (\<open>None\<close> for the initial empty list).
\<close>

record tracker =
  lanes_detected :: "bool option"
  left_fit :: "fit option"
  right_fit :: "fit option"

definition initial_tracker :: tracker where
  "initial_tracker = \<lparr> lanes_detected = None, left_fit = None, right_fit = None \<rparr>"

datatype search = WindowSearch | TargetedSearch

text \<open>
  The first statement of \<open>process_image\<close> after the mask is made:
  \<open>if lanes_detected is None: ... = sliding_window(warped_binary)\<close>. The result is the
  list of searches called and the tracker, or the exception.
\<close>

definition window_stage ::
  "polyfit_kernel \<Rightarrow> image \<Rightarrow> tracker \<Rightarrow> image \<Rightarrow> search list \<times> (error + tracker)" where
  "window_stage pf global_warped_binary s warped_binary =
     (if lanes_detected s = None then
        (case sliding_window pf global_warped_binary warped_binary of
           Inl e \<Rightarrow> ([WindowSearch], Inl e)
         | Inr (d, mid_offset, lf, rf) \<Rightarrow>
             ([WindowSearch],
              Inr \<lparr> lanes_detected = Some d, left_fit = Some lf, right_fit = Some rf \<rparr>))
      else ([], Inr s))"

text \<open>
  \<open>process_image\<close> on a frame whose warped mask (\<open>undist_pipeline_warp(img)[0]\<close>) is
  \<open>warped_binary\<close>, with the module-level image \<open>global_warped_binary\<close> that
  \<open>sliding_window\<close> reads. It returns the searches it called, in order, and either the
  exception that ended it or the updated tracker and the frame it returns.
\<close>

definition process_image ::
  "polyfit_kernel \<Rightarrow> image \<Rightarrow> tracker \<Rightarrow> image \<Rightarrow> search list \<times> (error + tracker \<times> frame_out)" where
  "process_image pf global_warped_binary s warped_binary =
     (case window_stage pf global_warped_binary s warped_binary of
        (calls, Inl e) \<Rightarrow> (calls, Inl e)
      | (calls, Inr s1) \<Rightarrow>
         (if lanes_detected s1 = Some True then
            (case subsequent_frame pf warped_binary (left_fit s1) (right_fit s1) of
               Inl e \<Rightarrow> (calls @ [TargetedSearch], Inl e)
             | Inr (d, mid_offset, lf, rf) \<Rightarrow>
                (let ploty = map real [0..<shape0 warped_binary];
                     left_fitx = map (poly_at lf) ploty;
                     right_fitx = map (poly_at rf) ploty
                 in case overlay_lane_lines pf mid_offset left_fitx right_fitx ploty of
                      Inl e \<Rightarrow> (calls @ [TargetedSearch], Inl e)
                    | Inr frame \<Rightarrow>
                        (calls @ [TargetedSearch],
                         Inr (\<lparr> lanes_detected = Some d, left_fit = Some lf, right_fit = Some rf \<rparr>,
                              frame))))
          else (calls, Inr (s1\<lparr> lanes_detected := None \<rparr>, Undistorted))))"

text \<open>
  The module-level variables after a call of \<open>process_image\<close>, also after a call that
  raised: an assignment whose right-hand side raises assigns nothing, so the variables
  keep what the last completed assignment gave them.
\<close>

definition tracker_after :: "polyfit_kernel \<Rightarrow> image \<Rightarrow> tracker \<Rightarrow> image \<Rightarrow> tracker" where
  "tracker_after pf global_warped_binary s warped_binary =
     (case window_stage pf global_warped_binary s warped_binary of
        (calls, Inl e) \<Rightarrow> s
      | (calls, Inr s1) \<Rightarrow>
         (if lanes_detected s1 = Some True then
            (case subsequent_frame pf warped_binary (left_fit s1) (right_fit s1) of
               Inl e \<Rightarrow> s1
             | Inr (d, mid_offset, lf, rf) \<Rightarrow>
                 \<lparr> lanes_detected = Some d, left_fit = Some lf, right_fit = Some rf \<rparr>)
          else s1\<lparr> lanes_detected := None \<rparr>))"

subsection \<open>The formulas of the specification\<close>

text \<open>
  The radius of curvature of \<open>x = A y\<^sup>2 + B y + C\<close> at \<open>y\<^sub>0\<close> as the specification writes
  it: \<open>R = (1 + (2 A y\<^sub>0 + B)\<^sup>2)\<^sup>1\<^sup>.\<^sup>5 / |2 A|\<close>.
\<close>

definition radius_of_curvature :: "real \<Rightarrow> real \<Rightarrow> real \<Rightarrow> real" where
  "radius_of_curvature A B y0 = (1 + (2 * A * y0 + B) ^ 2) powr 1.5 / \<bar>2 * A\<bar>"

text \<open>
  The centre offset as the specification writes it: the column histogram of the bottom
  half of the mask, split at the midpoint, the column of the maximum in each half, and
  \<open>(leftx_base + rightx_base)/2 - W/2\<close>.
\<close>

definition mask_channel :: "image \<Rightarrow> nat list list" where
  "mask_channel m = (case m of Color rows \<Rightarrow> map (map fst) rows | Gray rows \<Rightarrow> rows)"

definition histogram_offset :: "image \<Rightarrow> error + int" where
  "histogram_offset m =
     (let histogram = column_sums (shape1 m) (drop (shape0 m div 2) (mask_channel m));
          midpoint = length histogram div 2
      in case argmax (take midpoint histogram) of
           Inl e \<Rightarrow> Inl e
         | Inr leftx_base \<Rightarrow>
            (case argmax (drop midpoint histogram) of
               Inl e \<Rightarrow> Inl e
             | Inr r \<Rightarrow> Inr (int ((leftx_base + (r + midpoint)) div 2) - int midpoint)))"

subsection \<open>Inputs of the closed examples\<close>

text \<open>
  A least-squares kernel for the closed examples, for the two kinds of samples \<open>(y, x)\<close>
  where the least-squares quadratic \<open>x(y)\<close> has a closed form: through three samples
  with three different \<open>y\<close> it is the interpolating quadratic, and samples that all have
  the same \<open>x = c\<close> are fitted by the constant \<open>c\<close> (the solution numpy returns when
  \<open>c = 0\<close>, or when the samples have at least three different \<open>y\<close>). The examples call
  it on such samples only.
\<close>

definition exact_fit :: polyfit_kernel where
  "exact_fit ys xs =
     (case (ys, xs) of
        ([y0, y1, y2], [x0, x1, x2]) \<Rightarrow>
          (if y0 \<noteq> y1 \<and> y0 \<noteq> y2 \<and> y1 \<noteq> y2 then
             (let d0 = (y0 - y1) * (y0 - y2);
                  d1 = (y1 - y0) * (y1 - y2);
                  d2 = (y2 - y0) * (y2 - y1)
              in (x0 / d0 + x1 / d1 + x2 / d2,
                  - (x0 * (y1 + y2) / d0 + x1 * (y0 + y2) / d1 + x2 * (y0 + y1) / d2),
                  x0 * y1 * y2 / d0 + x1 * y0 * y2 / d1 + x2 * y0 * y1 / d2))
           else (0, 0, sum_list xs / real (length xs)))
      | _ \<Rightarrow> (0, 0, sum_list xs / real (length xs)))"

text \<open>
  Two 9 by 2 three-channel masks with a vertical line in the three bottom rows: in
  column 0 and in column 1.
\<close>

definition line_col0 :: image where
  "line_col0 = Color
     [[(0, 0, 0), (0, 0, 0)], [(0, 0, 0), (0, 0, 0)], [(0, 0, 0), (0, 0, 0)],
      [(0, 0, 0), (0, 0, 0)], [(0, 0, 0), (0, 0, 0)], [(0, 0, 0), (0, 0, 0)],
      [(255, 255, 255), (0, 0, 0)], [(255, 255, 255), (0, 0, 0)], [(255, 255, 255), (0, 0, 0)]]"

definition line_col1 :: image where
  "line_col1 = Color
     [[(0, 0, 0), (0, 0, 0)], [(0, 0, 0), (0, 0, 0)], [(0, 0, 0), (0, 0, 0)],
      [(0, 0, 0), (0, 0, 0)], [(0, 0, 0), (0, 0, 0)], [(0, 0, 0), (0, 0, 0)],
      [(0, 0, 0), (255, 255, 255)], [(0, 0, 0), (255, 255, 255)], [(0, 0, 0), (255, 255, 255)]]"

text \<open>
  A 9 by 18 three-channel mask whose bottom row is set in columns 0 to 15 and 17: 17
  active pixels, 51 nonzero entries.
\<close>

definition bottom_row_mask :: image where
  "bottom_row_mask = Color
     (replicate 8 (replicate 18 (0, 0, 0)) @
      [map (\<lambda>x. if x = 16 then (0, 0, 0) else (255, 255, 255)) [0..<18]])"

text \<open>The nonzero entries of that mask.\<close>

definition bottom_row_entries :: "(nat \<times> nat) list" where
  "bottom_row_entries =
     concat (map (\<lambda>x. [(8, x), (8, x), (8, x)]) [0, 1, 2, 3, 4, 5, 6, 7, 8, 9, 10, 11, 12, 13, 14, 15, 17])"

text \<open>
  A 9 by 121 three-channel mask with one vertical line, in column 120: the right lane
  line of a frame whose left line is not visible.
\<close>

definition right_line_only :: image where
  "right_line_only = Color (replicate 9 (replicate 120 (0, 0, 0) @ [(255, 255, 255)]))"

text \<open>The all-zero three-channel mask of \<open>h\<close> rows and \<open>w\<close> columns.\<close>

definition zero_mask :: "nat \<Rightarrow> nat \<Rightarrow> image" where
  "zero_mask h w = Color (replicate h (replicate w (0, 0, 0)))"

section \<open>Basic facts\<close>

lemmas eval_defs = nonzero_def color_entries_def gray_entries_def enumerate_eq_zip
  shape0_def shape1_def column_sums_def argmax_def Let_def nwindows_def margin_def minpix_def
  window_step_def in_window_def int_mean_def polyfit_def near_fit_def poly_at_def
  subsequent_frame_pixels_def

lemma one_plus_sq_ne0: "1 + (t::real)\<^sup>2 \<noteq> 0"
proof -
  have "0 < 1 + t\<^sup>2"
    by (simp add: add_pos_nonneg)
  then show ?thesis by linarith
qed

lemma rad_num_ge_1: "1 \<le> (1 + (t::real)\<^sup>2) powr 1.5"
  by (rule ge_one_powr_ge_zero) simp_all

lemma curverad_cases:
  "curverad (a, b, c) y = (if a = 0 then PosInf else Fin (radius_of_curvature a b y))"
proof (cases "a = 0")
  case True
  then show ?thesis
    by (simp add: curverad_def np_divide_def one_plus_sq_ne0)
next
  case False
  then show ?thesis
    by (simp add: curverad_def np_divide_def radius_of_curvature_def)
qed

subsection \<open>\<open>process_image\<close> by the value of \<open>lanes_detected\<close>\<close>

lemma process_image_tracking:
  "lanes_detected s = Some True \<Longrightarrow>
   process_image pf g s m =
     (case subsequent_frame pf m (left_fit s) (right_fit s) of
        Inl e \<Rightarrow> ([TargetedSearch], Inl e)
      | Inr (d, mid_offset, lf, rf) \<Rightarrow>
         (case overlay_lane_lines pf mid_offset (map (poly_at lf) (map real [0..<shape0 m]))
                 (map (poly_at rf) (map real [0..<shape0 m])) (map real [0..<shape0 m]) of
            Inl e \<Rightarrow> ([TargetedSearch], Inl e)
          | Inr frame \<Rightarrow>
              ([TargetedSearch],
               Inr (\<lparr> lanes_detected = Some d, left_fit = Some lf, right_fit = Some rf \<rparr>, frame))))"
  by (simp add: process_image_def window_stage_def Let_def split: sum.splits prod.splits)

lemma process_image_idle:
  "lanes_detected s = Some False \<Longrightarrow>
   process_image pf g s m = ([], Inr (s\<lparr> lanes_detected := None \<rparr>, Undistorted))"
  by (simp add: process_image_def window_stage_def)

lemma process_image_searching:
  "lanes_detected s = None \<Longrightarrow>
   process_image pf g s m =
     (case sliding_window pf g m of
        Inl e \<Rightarrow> ([WindowSearch], Inl e)
      | Inr (d, off, lf, rf) \<Rightarrow>
          (if d then
             (case subsequent_frame pf m (Some lf) (Some rf) of
                Inl e \<Rightarrow> ([WindowSearch, TargetedSearch], Inl e)
              | Inr (d', mid_offset, lf', rf') \<Rightarrow>
                 (case overlay_lane_lines pf mid_offset
                         (map (poly_at lf') (map real [0..<shape0 m]))
                         (map (poly_at rf') (map real [0..<shape0 m])) (map real [0..<shape0 m]) of
                    Inl e \<Rightarrow> ([WindowSearch, TargetedSearch], Inl e)
                  | Inr frame \<Rightarrow>
                      ([WindowSearch, TargetedSearch],
                       Inr (\<lparr> lanes_detected = Some d', left_fit = Some lf', right_fit = Some rf' \<rparr>,
                            frame))))
           else ([WindowSearch],
                 Inr (\<lparr> lanes_detected = None, left_fit = Some lf, right_fit = Some rf \<rparr>,
                      Undistorted))))"
  by (simp add: process_image_def window_stage_def Let_def split: sum.splits prod.splits)

subsection \<open>The centre offset of both searches\<close>



lemma subsequent_frame_unfold:
  "subsequent_frame pf m (Some lf) (Some rf) =
     (case histogram_offset m of
        Inl e \<Rightarrow> Inl e
      | Inr center_offset \<Rightarrow>
         (case polyfit pf (map (real \<circ> fst) (fst (subsequent_frame_pixels m lf rf)))
                 (map (real \<circ> snd) (fst (subsequent_frame_pixels m lf rf))) of
            Inl e \<Rightarrow> Inl e
          | Inr left_fit' \<Rightarrow>
             (case polyfit pf (map (real \<circ> fst) (snd (subsequent_frame_pixels m lf rf)))
                     (map (real \<circ> snd) (snd (subsequent_frame_pixels m lf rf))) of
                Inl e \<Rightarrow> Inl e
              | Inr right_fit' \<Rightarrow>
                  Inr (1 < length (fst (subsequent_frame_pixels m lf rf)) \<and>
                       1 < length (snd (subsequent_frame_pixels m lf rf)),
                       center_offset, left_fit', right_fit'))))"
  unfolding subsequent_frame_def histogram_offset_def Let_def
  by (cases m)
     (auto simp: mask_channel_def shape0_def split: sum.splits option.splits prod.splits)

subsection \<open>When the overlay is rendered\<close>

lemma all_zero_scaled:
  "list_all (\<lambda>v. v = 0) (map (\<lambda>y. y * ym_per_pix) ploty) = list_all (\<lambda>v. v = 0) ploty"
  by (induction ploty) (simp_all add: ym_per_pix_def)

lemma polyfit_Inr: "polyfit pf x y = Inr f \<Longrightarrow> x \<noteq> [] \<and> \<not> list_all (\<lambda>v. v = 0) x"
  by (auto simp: polyfit_def split: if_splits)

lemma calculate_curvature_returns:
  assumes "\<not> list_all (\<lambda>v. v = 0) ploty"
    and "length leftx = length ploty" and "length rightx = length ploty"
  shows "\<exists>curvature. calculate_curvature pf off leftx rightx ploty =
           Inr (round1 (100 * real_of_int off * xm_per_pix), curvature)"
proof -
  have "ploty \<noteq> []" using assms(1) by auto
  then show ?thesis
    using assms by (simp add: calculate_curvature_def polyfit_def Let_def all_zero_scaled)
qed

lemma calculate_curvature_all_zero:
  assumes "ploty \<noteq> []" and "length leftx = length ploty" and "list_all (\<lambda>v. v = 0) ploty"
  shows "calculate_curvature pf off leftx rightx ploty = Inl LinAlgError"
  using assms by (simp add: calculate_curvature_def polyfit_def)

lemma ploty_not_all_zero: "1 < h \<Longrightarrow> \<not> list_all (\<lambda>v. v = 0) (map real [0..<h])"
proof -
  assume "1 < h"
  then have "real 1 \<in> set (map real [0..<h])" by (metis atLeastLessThan_iff image_eqI less_eq_nat.simps(1) set_map set_upt)
  then show ?thesis by (auto simp: list_all_iff)
qed

lemma ploty_one_row: "list_all (\<lambda>v. v = 0) (map real [0..<1])"
  by simp

lemma column_sums_length: "length (column_sums w rows) \<le> w"
  unfolding column_sums_def by (induction rows) simp_all

lemma argmax_Inr_nonempty: "argmax xs = Inr i \<Longrightarrow> xs \<noteq> []"
  by (auto simp: argmax_def)

lemma histogram_offset_shape:
  assumes "histogram_offset m = Inr off"
  shows "0 < shape0 m"
proof -
  let ?h = "column_sums (shape1 m) (drop (shape0 m div 2) (mask_channel m))"
  from assms obtain i where "argmax (take (length ?h div 2) ?h) = Inr i"
    by (auto simp: histogram_offset_def Let_def split: sum.splits)
  then have "?h \<noteq> []"
    using argmax_Inr_nonempty by fastforce
  then have "0 < length ?h" by simp
  then have "0 < shape1 m"
    using column_sums_length[of "shape1 m" "drop (shape0 m div 2) (mask_channel m)"] by linarith
  then show ?thesis
    by (cases m) (auto simp: shape1_def shape0_def split: list.splits)
qed

lemma sliding_window_pixels_rows:
  assumes "sliding_window_pixels g m = Inr (off, left, right)"
  shows "\<forall>p\<in>set (left @ right). fst p < shape0 m"
  using assms
  unfolding sliding_window_pixels_def Let_def
  by (cases m) (auto simp: list_ex_iff case_prod_beta split: sum.splits if_splits)

lemma sliding_window_rows:
  assumes "sliding_window pf g m = Inr r"
  shows "1 < shape0 m"
proof -
  from assms obtain off left right f where
    px: "sliding_window_pixels g m = Inr (off, left, right)" and
    pl: "polyfit pf (map (real \<circ> fst) left) (map (real \<circ> snd) left) = Inr f"
    by (auto simp: sliding_window_def Let_def split: sum.splits prod.splits)
  from polyfit_Inr[OF pl] obtain p where p: "p \<in> set left" and "fst p \<noteq> 0"
    by (auto simp: list_all_iff)
  then have "1 \<le> fst p" by simp
  moreover have "fst p < shape0 m"
    using sliding_window_pixels_rows[OF px] p by simp
  ultimately show ?thesis by simp
qed

lemma overlay_returns:
  assumes "1 < n"
  shows "\<exists>position curvature.
           calculate_curvature pf off (map f (map real [0..<n])) (map f' (map real [0..<n]))
             (map real [0..<n]) = Inr (position, curvature) \<and>
           overlay_lane_lines pf off (map f (map real [0..<n])) (map f' (map real [0..<n]))
             (map real [0..<n]) =
           Inr (Overlaid (map f (map real [0..<n])) (map f' (map real [0..<n])) (map real [0..<n])
                  position curvature)"
proof -
  have "\<not> list_all (\<lambda>v. v = 0) (map real [0..<n])"
    using assms by (rule ploty_not_all_zero)
  then obtain c where
    "calculate_curvature pf off (map f (map real [0..<n])) (map f' (map real [0..<n]))
       (map real [0..<n]) = Inr (round1 (100 * real_of_int off * xm_per_pix), c)"
    using calculate_curvature_returns[of "map real [0..<n]" "map f (map real [0..<n])"
        "map f' (map real [0..<n])" pf off]
    by auto
  then show ?thesis by (simp add: overlay_lane_lines_def)
qed

subsection \<open>The radius of curvature\<close>

lemma curverad_pos_or_inf:
  "curverad f y = PosInf \<or> (\<exists>r. curverad f y = Fin r)"
  by (cases f) (simp add: curverad_cases)

lemma curvature_inf:
  assumes "\<not> list_all (\<lambda>v. v = 0) ploty"
    and "length leftx = length ploty" and "length rightx = length ploty"
    and "fst (pf (map (\<lambda>y. y * ym_per_pix) ploty) (map (\<lambda>x. x * xm_per_pix) leftx)) = 0 \<or>
         fst (pf (map (\<lambda>y. y * ym_per_pix) ploty) (map (\<lambda>x. x * xm_per_pix) rightx)) = 0"
  shows "calculate_curvature pf midoffset leftx rightx ploty =
           Inr (round1 (100 * real_of_int midoffset * xm_per_pix), PosInf)"
proof -
  let ?lf = "pf (map (\<lambda>y. y * ym_per_pix) ploty) (map (\<lambda>x. x * xm_per_pix) leftx)"
  let ?rf = "pf (map (\<lambda>y. y * ym_per_pix) ploty) (map (\<lambda>x. x * xm_per_pix) rightx)"
  let ?y = "Max (set ploty) * ym_per_pix"
  let ?km = "\<lambda>x. np_lift round1 (np_lift (\<lambda>r. r / 1000) x)"
  have eq: "calculate_curvature pf midoffset leftx rightx ploty =
          Inr (round1 (100 * real_of_int midoffset * xm_per_pix),
               np_lift (\<lambda>r. 0.5 * r) (np_add (?km (curverad ?rf ?y)) (?km (curverad ?lf ?y))))"
  proof -
    have half: "((*) (1 / 2) :: real \<Rightarrow> real) = (\<lambda>r. r / 2)" by (auto simp: fun_eq_iff)
    have ne: "ploty \<noteq> []" using assms(1) by auto
    show ?thesis
      using assms(1-3) ne
      by (simp add: calculate_curvature_def polyfit_def Let_def half all_zero_scaled)
  qed
  have l: "?km (curverad ?lf ?y) = PosInf \<or> (\<exists>r. ?km (curverad ?lf ?y) = Fin r)"
    using curverad_pos_or_inf[of ?lf ?y] by auto
  have r: "?km (curverad ?rf ?y) = PosInf \<or> (\<exists>r. ?km (curverad ?rf ?y) = Fin r)"
    using curverad_pos_or_inf[of ?rf ?y] by auto
  have "np_add (?km (curverad ?rf ?y)) (?km (curverad ?lf ?y)) = PosInf"
  proof -
    from assms(4) consider "fst ?lf = 0" | "fst ?rf = 0" by blast
    then show ?thesis
    proof cases
      case 1
      then have "curverad ?lf ?y = PosInf"
        by (cases ?lf) (simp add: curverad_cases)
      then show ?thesis using r by auto
    next
      case 2
      then have "curverad ?rf ?y = PosInf"
        by (cases ?rf) (simp add: curverad_cases)
      then show ?thesis using l by auto
    qed
  qed
  then show ?thesis using eq by simp
qed

lemma radius_lower_bound: "a \<noteq> 0 \<Longrightarrow> 1 / \<bar>2 * a\<bar> \<le> radius_of_curvature a b y"
  using rad_num_ge_1[of "2 * a * y + b"]
  by (simp add: radius_of_curvature_def divide_right_mono)

lemma Max_ploty:
  assumes "0 < h"
  shows "Max (set (map real [0..<h])) = real (h - 1)"
proof (rule Max_eqI)
  show "finite (set (map real [0..<h]))" by simp
  show "y \<le> real (h - 1)" if "y \<in> set (map real [0..<h])" for y
    using that by auto
  have "h - 1 \<in> {0..<h}" using assms by simp
  then show "real (h - 1) \<in> set (map real [0..<h])"
    by (metis image_eqI set_map set_upt)
qed

subsection \<open>One window\<close>







subsection \<open>All-zero masks\<close>

lemma color_entries_zero: "color_entries y (x, (0, 0, 0)) = []"
  by (simp add: color_entries_def)

lemma concat_map_Nil: "(\<And>x. x \<in> set xs \<Longrightarrow> f x = []) \<Longrightarrow> concat (map f xs) = []"
  by (induction xs) auto

lemma nonzero_zero_mask: "nonzero (zero_mask h w) = []"
  unfolding nonzero_def zero_mask_def image.case
proof (rule concat_map_Nil)
  fix p assume pin: "p \<in> set (enumerate 0 (replicate h (replicate w ((0, 0, 0) :: pixel3))))"
  obtain y row where p: "p = (y, row)" by (cases p)
  have row: "row = replicate w (0, 0, 0)"
    using pin p by (auto simp: in_set_enumerate_eq)
  have "concat (map (color_entries y) (enumerate 0 (replicate w (0, 0, 0)))) = []"
  proof (rule concat_map_Nil)
    fix q assume qin: "q \<in> set (enumerate 0 (replicate w ((0, 0, 0) :: pixel3)))"
    obtain x v where q: "q = (x, v)" by (cases q)
    have "v = (0, 0, 0)"
      using qin q by (auto simp: in_set_enumerate_eq)
    then show "color_entries y q = []" by (simp add: q color_entries_zero)
  qed
  then show "(case p of (y, row) \<Rightarrow> concat (map (color_entries y) (enumerate 0 row))) = []"
    using p row by simp
qed

lemma map2_add_zeros: "map2 (+) (replicate w (0::nat)) (replicate w 0) = replicate w 0"
  by (induction w) simp_all

lemma column_sums_zeros: "column_sums w (replicate k (replicate w 0)) = replicate w 0"
  unfolding column_sums_def by (induction k) (simp_all add: map2_add_zeros)

lemma argmax_from_zeros: "argmax_from b v i (replicate n 0) = b"
  by (induction n arbitrary: i) simp_all

lemma argmax_zeros: "0 < n \<Longrightarrow> argmax (replicate n 0) = Inr 0"
  by (cases n) (simp_all add: argmax_def argmax_from_zeros)

lemma histogram_offset_zero_mask:
  assumes "1 \<le> h" and "2 \<le> w"
  shows "histogram_offset (zero_mask h w) = Inr (int (w div 2 div 2) - int (w div 2))"
proof -
  have ch: "mask_channel (zero_mask h w) = replicate h (replicate w 0)"
    by (simp add: mask_channel_def zero_mask_def)
  have s0: "shape0 (zero_mask h w) = h"
    by (simp add: shape0_def zero_mask_def)
  have s1: "shape1 (zero_mask h w) = w"
    using assms(1) by (cases h) (simp_all add: shape1_def zero_mask_def)
  have hist: "column_sums (shape1 (zero_mask h w)) (drop (shape0 (zero_mask h w) div 2)
                (mask_channel (zero_mask h w))) = replicate w 0"
    by (simp add: ch s0 s1 column_sums_zeros)
  have a: "argmax (replicate (w div 2) 0) = Inr 0"
    using assms(2) by (simp add: argmax_zeros)
  have b: "argmax (replicate (w - w div 2) 0) = Inr 0"
    using assms(2) by (simp add: argmax_zeros)
  show ?thesis
    unfolding histogram_offset_def hist Let_def
    by (simp add: a b)
qed

lemma targeted_zero_mask:
  assumes "1 \<le> h" and "2 \<le> w"
  shows "subsequent_frame pf (zero_mask h w) (Some lf) (Some rf) = Inl TypeError"
  by (simp add: subsequent_frame_unfold histogram_offset_zero_mask[OF assms]
      subsequent_frame_pixels_def nonzero_zero_mask polyfit_def)

lemma window_loop_no_entries:
  "concat (left_lane_inds (foldl (window_step h wh []) s ws)) = concat (left_lane_inds s) \<and>
   concat (right_lane_inds (foldl (window_step h wh []) s ws)) = concat (right_lane_inds s)"
  by (induction ws arbitrary: s) (simp_all add: window_step_def Let_def)

lemma window_pixels_zero_mask:
  assumes "1 \<le> h" and "2 \<le> w" and "nonzero g = []"
  shows "sliding_window_pixels g (zero_mask h w) =
           Inr (int (w div 2 div 2) - int (w div 2), [], [])"
proof -
  let ?rows = "replicate h (replicate w ((0, 0, 0) :: pixel3))"
  have ch: "map (map fst) ?rows = replicate h (replicate w 0)"
    by simp
  have s1: "shape1 (Color ?rows) = w"
    using assms(1) by (cases h) (simp_all add: shape1_def)
  have hist: "column_sums (shape1 (Color ?rows))
                (drop (length (map (map fst) ?rows) div 2) (map (map fst) ?rows)) = replicate w 0"
    unfolding s1 ch by (simp add: column_sums_zeros)
  have a: "argmax (replicate (w div 2) 0) = Inr 0"
    using assms(2) by (simp add: argmax_zeros)
  have b: "argmax (replicate (w - w div 2) 0) = Inr 0"
    using assms(2) by (simp add: argmax_zeros)
  show ?thesis
    unfolding sliding_window_pixels_def zero_mask_def image.case Let_def hist assms(3)
    by (simp add: a b window_loop_no_entries)
qed

lemma window_zero_mask:
  assumes "1 \<le> h" and "2 \<le> w" and "nonzero g = []"
  shows "sliding_window pf g (zero_mask h w) = Inl TypeError"
  by (simp add: sliding_window_def window_pixels_zero_mask[OF assms] polyfit_def)

subsection \<open>Masks with three equal channels\<close>

text \<open>
  On such a mask every pixel set has a multiple of three entries, so a set with fewer
  than two entries is empty: Targeted Search then never returns \<open>lanes_detected = False\<close>,
  it returns \<open>True\<close> or raises in \<open>np.polyfit\<close>, and a frame processed in Tracking that
  returns stays in Tracking.
\<close>

lemma dvd3_filter_concat:
  "(\<And>x. x \<in> set xs \<Longrightarrow> 3 dvd length (filter P (f x))) \<Longrightarrow>
   3 dvd length (filter P (concat (map f xs)))"
  by (induction xs) simp_all

lemma dvd3_color_entries: "3 dvd length (filter P (color_entries y (x, (a, a, a))))"
  by (simp add: color_entries_def numeral_3_eq_3)

lemma dvd3_nonzero:
  assumes "equal_channels m"
  shows "3 dvd length (filter P (nonzero m))"
proof -
  from assms obtain rows where m: "m = Color rows"
    and eq: "list_all (list_all (\<lambda>(a, b, c). a = b \<and> b = c)) rows"
    by (cases m) (simp_all add: equal_channels_def)
  have "3 dvd length (filter P (concat (map (\<lambda>(y, row). concat (map (color_entries y) (enumerate 0 row)))
                                          (enumerate 0 rows))))"
  proof (rule dvd3_filter_concat)
    fix p assume pin: "p \<in> set (enumerate 0 rows)"
    obtain y row where p: "p = (y, row)" by (cases p)
    have row: "row \<in> set rows"
      using pin p by (auto simp: in_set_enumerate_eq intro: nth_mem)
    have "3 dvd length (filter P (concat (map (color_entries y) (enumerate 0 row))))"
    proof (rule dvd3_filter_concat)
      fix q assume qin: "q \<in> set (enumerate 0 row)"
      obtain x a b c where q: "q = (x, (a, b, c))" by (cases q) auto
      have "x < length row \<and> row ! x = (a, b, c)"
        using qin q by (auto simp: in_set_enumerate_eq)
      then have "(a, b, c) \<in> set row"
        using nth_mem by fastforce
      then have "a = b \<and> b = c"
        using eq row by (auto simp: list_all_iff)
      then show "3 dvd length (filter P (color_entries y q))"
        using dvd3_color_entries[of P y x a] q by simp
    qed
    then show "3 dvd length (filter P (case p of (y, row) \<Rightarrow>
                 concat (map (color_entries y) (enumerate 0 row))))"
      using p by simp
  qed
  then show ?thesis by (simp add: m nonzero_def)
qed

lemma small_multiple_of_3: "3 dvd (n::nat) \<Longrightarrow> \<not> 1 < n \<Longrightarrow> n = 0"
  by auto

lemma equal_channels_tracking:
  assumes "equal_channels m"
    and "subsequent_frame pf m l r = Inr (d, off, lf, rf)"
  shows "d"
proof -
  from assms(2) obtain l' r' where l: "l = Some l'" and r: "r = Some r'"
    by (cases l; cases r)
       (auto simp: subsequent_frame_def Let_def split: sum.splits)
  let ?L = "fst (subsequent_frame_pixels m l' r')"
  let ?R = "snd (subsequent_frame_pixels m l' r')"
  have dl: "3 dvd length ?L" and dr: "3 dvd length ?R"
    using dvd3_nonzero[OF assms(1)] by (simp_all add: subsequent_frame_pixels_def Let_def)
  from assms(2) have ne: "?L \<noteq> [] \<and> ?R \<noteq> []" and d: "d = (1 < length ?L \<and> 1 < length ?R)"
    unfolding l r subsequent_frame_unfold
    by (auto simp: polyfit_def split: sum.splits if_splits)
  show ?thesis
    using small_multiple_of_3[OF dl] small_multiple_of_3[OF dr] ne d by auto
qed

lemma equal_channels_tracking_frame:
  assumes "equal_channels m"
    and "lanes_detected s = Some True"
    and "snd (process_image pf g s m) = Inr (s', out)"
  shows "lanes_detected s' = Some True"
proof -
  from assms(3) obtain d off lf rf where
    sf: "subsequent_frame pf m (left_fit s) (right_fit s) = Inr (d, off, lf, rf)" and
    s': "s' = \<lparr> lanes_detected = Some d, left_fit = Some lf, right_fit = Some rf \<rparr>"
    by (auto simp: process_image_tracking[OF assms(2)] split: sum.splits prod.splits)
  show ?thesis
    using equal_channels_tracking[OF assms(1) sf] s' by simp
qed

subsection \<open>The tracker after a frame\<close>

text \<open>
  On masks with three equal channels a fit is invalid only when a pixel set is empty, and
  then \<open>np.polyfit\<close> raises before any module-level variable is assigned: a frame
  processed in Tracking whose validation fails leaves the tracker as it was, and every
  frame that returns leaves \<open>lanes_detected = True\<close>.
\<close>

lemma tracker_after_returned:
  assumes "snd (process_image pf g s m) = Inr (s', out)"
  shows "tracker_after pf g s m = s'"
  using assms
  by (auto simp: process_image_def tracker_after_def Let_def
           split: sum.splits prod.splits if_splits)

lemma equal_channels_zero_mask: "equal_channels (zero_mask h w)"
  by (simp add: equal_channels_def zero_mask_def list_all_iff)

lemma failing_tracking_search:
  assumes "equal_channels m"
    and "\<not> (1 < length (fst (subsequent_frame_pixels m lf rf)) \<and>
            1 < length (snd (subsequent_frame_pixels m lf rf)))"
  shows "\<exists>e. subsequent_frame pf m (Some lf) (Some rf) = Inl e"
proof (cases "subsequent_frame pf m (Some lf) (Some rf)")
  case (Inl e)
  then show ?thesis by simp
next
  case (Inr r)
  obtain d off l' r' where r: "r = (d, off, l', r')" by (cases r) auto
  have d: "d" using equal_channels_tracking[OF assms(1)] Inr r by simp
  have "d = (1 < length (fst (subsequent_frame_pixels m lf rf)) \<and>
             1 < length (snd (subsequent_frame_pixels m lf rf)))"
    using Inr r unfolding subsequent_frame_unfold
    by (auto split: sum.splits)
  then show ?thesis using d assms(2) by simp
qed

lemma failing_tracking_frame:
  assumes "equal_channels m"
    and "lanes_detected s = Some True" and "left_fit s = Some lf" and "right_fit s = Some rf"
    and "\<not> (1 < length (fst (subsequent_frame_pixels m lf rf)) \<and>
            1 < length (snd (subsequent_frame_pixels m lf rf)))"
  shows "(\<exists>e. process_image pf g s m = ([TargetedSearch], Inl e)) \<and> tracker_after pf g s m = s"
proof -
  obtain e where e: "subsequent_frame pf m (Some lf) (Some rf) = Inl e"
    using failing_tracking_search[OF assms(1,5)] by blast
  have "process_image pf g s m = ([TargetedSearch], Inl e)"
    using e assms(2-4) by (simp add: process_image_tracking)
  moreover have "tracker_after pf g s m = s"
    using e assms(2-4) by (simp add: tracker_after_def window_stage_def)
  ultimately show ?thesis by blast
qed

lemma dvd3_window_step:
  assumes "\<And>P. 3 dvd length (filter P nz)"
    and "3 dvd length (concat (left_lane_inds s))" and "3 dvd length (concat (right_lane_inds s))"
  shows "3 dvd length (concat (left_lane_inds (window_step h wh nz s w))) \<and>
         3 dvd length (concat (right_lane_inds (window_step h wh nz s w)))"
  using assms by (simp add: window_step_def Let_def)

lemma dvd3_window_loop:
  assumes "\<And>P. 3 dvd length (filter P nz)"
  shows "3 dvd length (concat (left_lane_inds s)) \<Longrightarrow> 3 dvd length (concat (right_lane_inds s)) \<Longrightarrow>
         3 dvd length (concat (left_lane_inds (foldl (window_step h wh nz) s ws))) \<and>
         3 dvd length (concat (right_lane_inds (foldl (window_step h wh nz) s ws)))"
proof (induction ws arbitrary: s)
  case Nil
  then show ?case by simp
next
  case (Cons w ws)
  have st: "3 dvd length (concat (left_lane_inds (window_step h wh nz s w))) \<and>
            3 dvd length (concat (right_lane_inds (window_step h wh nz s w)))"
    using dvd3_window_step[OF assms Cons.prems] .
  show ?case
    unfolding foldl_Cons using Cons.IH st by blast
qed

lemma equal_channels_window:
  assumes "equal_channels g" and "sliding_window pf g m = Inr (d, off, lf, rf)"
  shows "d"
proof -
  from assms(2) obtain left right where
    px: "sliding_window_pixels g m = Inr (off, left, right)" and
    d: "d = (1 < length left \<and> 1 < length right)" and
    pl: "polyfit pf (map (real \<circ> fst) left) (map (real \<circ> snd) left) \<noteq> Inl TypeError" and
    pr: "polyfit pf (map (real \<circ> fst) right) (map (real \<circ> snd) right) \<noteq> Inl TypeError"
    by (auto simp: sliding_window_def Let_def split: sum.splits prod.splits)
  have ne: "left \<noteq> [] \<and> right \<noteq> []"
    using pl pr by (auto simp: polyfit_def)
  have "3 dvd length left \<and> 3 dvd length right"
    using px dvd3_window_loop[OF dvd3_nonzero[OF assms(1)]]
    unfolding sliding_window_pixels_def Let_def
    by (cases m) (auto split: sum.splits if_splits)
  then show ?thesis
    using ne d small_multiple_of_3 by auto
qed

lemma pipeline_frame_ends_tracking:
  assumes "equal_channels g" and "equal_channels m"
    and "lanes_detected s \<noteq> Some False"
    and "snd (process_image pf g s m) = Inr (s', out)"
  shows "lanes_detected s' = Some True"
proof (cases "lanes_detected s")
  case None
  from assms(4) show ?thesis
    using equal_channels_window[OF assms(1)] equal_channels_tracking[OF assms(2)]
    by (auto simp: process_image_searching[OF None] split: sum.splits prod.splits if_splits)
next
  case (Some b)
  then have "lanes_detected s = Some True" using assms(3) by (cases b) auto
  then show ?thesis
    using equal_channels_tracking_frame[OF assms(2) _ assms(4)] by simp
qed

lemma tracker_after_tracking:
  assumes "equal_channels m" and "lanes_detected s = Some True"
  shows "lanes_detected (tracker_after pf g s m) = Some True"
proof (cases "subsequent_frame pf m (left_fit s) (right_fit s)")
  case (Inl e)
  then show ?thesis
    using assms(2) by (simp add: tracker_after_def window_stage_def)
next
  case (Inr r)
  obtain d off lf rf where r: "r = (d, off, lf, rf)" by (cases r) auto
  have "d" using equal_channels_tracking[OF assms(1)] Inr r by simp
  then show ?thesis
    using assms(2) Inr r by (simp add: tracker_after_def window_stage_def)
qed

lemma tracking_calls_targeted_search:
  "lanes_detected s = Some True \<Longrightarrow> fst (process_image pf g s m) = [TargetedSearch]"
  by (simp add: process_image_tracking split: sum.splits prod.splits)

subsection \<open>The closed examples, evaluated\<close>

lemma upt_9: "[0..<9] = [0, 1, 2, 3, 4, 5, 6, 7, 8::nat]"
  by code_simp

lemma window_pixels_col1_col0:
  "sliding_window_pixels line_col1 line_col0 =
     Inr (- 1,
          [(8, 1), (8, 1), (8, 1), (7, 1), (7, 1), (7, 1), (6, 1), (6, 1), (6, 1)],
          [(8, 1), (8, 1), (8, 1), (7, 1), (7, 1), (7, 1), (6, 1), (6, 1), (6, 1)])"
  by code_simp

lemma window_pixels_col0_col0:
  "sliding_window_pixels line_col0 line_col0 =
     Inr (- 1,
          [(8, 0), (8, 0), (8, 0), (7, 0), (7, 0), (7, 0), (6, 0), (6, 0), (6, 0)],
          [(8, 0), (8, 0), (8, 0), (7, 0), (7, 0), (7, 0), (6, 0), (6, 0), (6, 0)])"
  by code_simp

lemma window_col1_col0:
  "sliding_window exact_fit line_col1 line_col0 = Inr (True, - 1, (0, 0, 1), (0, 0, 1))"
  by (simp add: sliding_window_def window_pixels_col1_col0 polyfit_def exact_fit_def)

lemma window_col0_col0:
  "sliding_window exact_fit line_col0 line_col0 = Inr (True, - 1, (0, 0, 0), (0, 0, 0))"
  by (simp add: sliding_window_def window_pixels_col0_col0 polyfit_def exact_fit_def)

lemma nonzero_col0:
  "nonzero line_col0 = [(6, 0), (6, 0), (6, 0), (7, 0), (7, 0), (7, 0), (8, 0), (8, 0), (8, 0)]"
  by code_simp

lemma offset_col0: "histogram_offset line_col0 = Inr (- 1)"
  by (simp add: histogram_offset_def line_col0_def mask_channel_def shape0_def shape1_def
      column_sums_def argmax_def Let_def)

lemma targeted_pixels_col0:
  "\<bar>c\<bar> < 100 \<Longrightarrow> \<bar>c'\<bar> < 100 \<Longrightarrow>
   subsequent_frame_pixels line_col0 (0, 0, c) (0, 0, c') = (nonzero line_col0, nonzero line_col0)"
  by (simp add: subsequent_frame_pixels_def nonzero_col0 near_fit_def poly_at_def margin_def)
     linarith

lemma targeted_col0:
  "\<bar>c\<bar> < 100 \<Longrightarrow> \<bar>c'\<bar> < 100 \<Longrightarrow>
   subsequent_frame exact_fit line_col0 (Some (0, 0, c)) (Some (0, 0, c')) =
     Inr (True, - 1, (0, 0, 0), (0, 0, 0))"
  by (simp add: subsequent_frame_unfold offset_col0 targeted_pixels_col0 nonzero_col0
      polyfit_def exact_fit_def)

lemma curvature_flat_9:
  "calculate_curvature exact_fit (- 1) [0, 0, 0, 0, 0, 0, 0, 0, 0] [0, 0, 0, 0, 0, 0, 0, 0, 0]
      [0, 1, 2, 3, 4, 5, 6, 7, 8] = Inr (- (1 / 2), PosInf)"
  by (simp add: calculate_curvature_def exact_fit_def polyfit_def Let_def curverad_def
      np_divide_def round1_def xm_per_pix_def ym_per_pix_def rint_def)

lemma process_image_col0:
  "process_image exact_fit line_col1 initial_tracker line_col0 =
     ([WindowSearch, TargetedSearch],
      Inr (\<lparr> lanes_detected = Some True, left_fit = Some (0, 0, 0), right_fit = Some (0, 0, 0) \<rparr>,
           Overlaid [0, 0, 0, 0, 0, 0, 0, 0, 0] [0, 0, 0, 0, 0, 0, 0, 0, 0]
             [0, 1, 2, 3, 4, 5, 6, 7, 8] (- (1 / 2)) PosInf))"
proof -
  have sh: "shape0 line_col0 = 9"
    by (simp add: line_col0_def shape0_def)
  have i: "lanes_detected initial_tracker = None"
    by (simp add: initial_tracker_def)
  show ?thesis
    by (simp add: process_image_searching[OF i] window_col1_col0 targeted_col0 sh upt_9
        overlay_lane_lines_def curvature_flat_9 poly_at_def)
qed

lemma exact_fit_3:
  "y0 \<noteq> y1 \<Longrightarrow> y0 \<noteq> y2 \<Longrightarrow> y1 \<noteq> y2 \<Longrightarrow>
   exact_fit [y0, y1, y2] [x0, x1, x2] =
     (x0 / ((y0 - y1) * (y0 - y2)) + x1 / ((y1 - y0) * (y1 - y2)) + x2 / ((y2 - y0) * (y2 - y1)),
      - (x0 * (y1 + y2) / ((y0 - y1) * (y0 - y2)) + x1 * (y0 + y2) / ((y1 - y0) * (y1 - y2))
         + x2 * (y0 + y1) / ((y2 - y0) * (y2 - y1))),
      x0 * y1 * y2 / ((y0 - y1) * (y0 - y2)) + x1 * y0 * y2 / ((y1 - y0) * (y1 - y2))
         + x2 * y0 * y1 / ((y2 - y0) * (y2 - y1)))"
  by (simp add: exact_fit_def Let_def)

lemma upt_3: "[0..<3] = [0, 1, 2::nat]" by code_simp

lemma left_metric:
  "exact_fit (map (\<lambda>y. y * ym_per_pix) [0, 1, 2])
      (map (\<lambda>x. x * xm_per_pix) [200 + 4 / 6300, 200 + 1 / 6300, 200]) =
    (74 / 153125, - (37 / 459375), 11655037 / 11025000)"
  by (simp add: exact_fit_3 ym_per_pix_def xm_per_pix_def)

lemma right_metric:
  "exact_fit (map (\<lambda>y. y * ym_per_pix) [0, 1, 2])
      (map (\<lambda>x. x * xm_per_pix) [900 + 4 / 6900, 900 + 1 / 6900, 900]) =
    (222 / 503125, - (37 / 503125), 57442537 / 12075000)"
  by (simp add: exact_fit_3 ym_per_pix_def xm_per_pix_def)

lemma radius_left: "radius_of_curvature (74 / 153125) (- (37 / 459375)) (real (3 - 1) * ym_per_pix) = 153125 / 148"
  by (simp add: radius_of_curvature_def ym_per_pix_def)

lemma radius_right: "radius_of_curvature (222 / 503125) (- (37 / 503125)) (real (3 - 1) * ym_per_pix) = 503125 / 444"
  by (simp add: radius_of_curvature_def ym_per_pix_def)

lemma round_left: "round1 (153125 / 148 / 1000) = 1" 
  by (simp add: round1_def rint_def Let_def)

lemma round_right: "round1 (503125 / 444 / 1000) = 11 / 10" 
  by (simp add: round1_def rint_def Let_def)

lemma round_avg: "round1 ((153125 / 148 + 503125 / 444) / 2 / 1000) = 11 / 10" 
  by (simp add: round1_def rint_def Let_def)

lemma round_zero: "round1 (100 * real_of_int 0 * xm_per_pix) = 0"
  by (simp add: round1_def rint_def)


lemma bottom_row_pixels:
  "sliding_window_pixels bottom_row_mask bottom_row_mask =
     Inr (- 5, bottom_row_entries, bottom_row_entries)"
  by code_simp





text \<open>The frame with the right line only, processed in Tracking.\<close>

lemma equal_channels_right_line_only: "equal_channels right_line_only"
  by (simp add: equal_channels_def right_line_only_def list_all_iff)

lemma nonzero_right_line_only:
  "list_all (\<lambda>p. snd p = 120) (nonzero right_line_only) \<and> length (nonzero right_line_only) = 27"
  by code_simp

lemma offset_right_line_only: "histogram_offset right_line_only = Inr 0"
  by code_simp

lemma targeted_pixels_right_line_only:
  "subsequent_frame_pixels right_line_only (0, 0, 10) (0, 0, 120) = ([], nonzero right_line_only)"
proof -
  have x: "\<forall>p \<in> set (nonzero right_line_only). snd p = 120"
    using nonzero_right_line_only by (simp add: list_all_iff)
  have l: "filter (near_fit (0, 0, 10)) (nonzero right_line_only) = []"
    using x by (auto simp: filter_empty_conv near_fit_def poly_at_def margin_def)
  have r: "filter (near_fit (0, 0, 120)) (nonzero right_line_only) = nonzero right_line_only"
    using x by (auto simp: filter_id_conv near_fit_def poly_at_def margin_def)
  show ?thesis
    by (simp add: subsequent_frame_pixels_def l r)
qed

lemma targeted_right_line_only:
  "subsequent_frame pf right_line_only (Some (0, 0, 10)) (Some (0, 0, 120)) = Inl TypeError"
  by (simp add: subsequent_frame_unfold offset_right_line_only targeted_pixels_right_line_only
      polyfit_def)
section \<open>The claims\<close>

text \<open>
  C1. The code does not do what the claim says, by the defect of C2. On the masks
  \<open>undist_pipeline_warp\<close> returns (three equal channels) a fit is invalid only when a
  pixel set is empty, and then the unguarded \<open>np.polyfit\<close> raises before
  \<open>lanes_detected\<close> is assigned. So after a frame processed in Tracking the variable is
  still \<open>True\<close>, whether the fits of that frame were valid or not, and the next call of
  \<open>process_image\<close> invokes Targeted Search and no Window Search. The first half of the
  law holds; after a frame with an invalid fit the next frame does not invoke Window
  Search.
\<close>

theorem tracking_frame_then_targeted_search:
  assumes "equal_channels m" and "lanes_detected s = Some True"
    and "left_fit s = Some lf" and "right_fit s = Some rf"
  shows "fst (process_image pf g (tracker_after pf g s m) m') = [TargetedSearch] \<and>
         (\<not> (1 < length (fst (subsequent_frame_pixels m lf rf)) \<and>
              1 < length (snd (subsequent_frame_pixels m lf rf))) \<longrightarrow>
          (\<exists>e. snd (process_image pf g s m) = Inl e) \<and>
          lanes_detected (tracker_after pf g s m) = Some True)"
proof -
  have t: "lanes_detected (tracker_after pf g s m) = Some True"
    using assms(1,2) by (rule tracker_after_tracking)
  have n: "fst (process_image pf g (tracker_after pf g s m) m') = [TargetedSearch]"
    using t by (rule tracking_calls_targeted_search)
  have r: "\<exists>e. snd (process_image pf g s m) = Inl e"
    if "\<not> (1 < length (fst (subsequent_frame_pixels m lf rf)) \<and>
            1 < length (snd (subsequent_frame_pixels m lf rf)))"
    using failing_tracking_frame[OF assms that, of pf g] by auto
  show ?thesis
    using t n r by blast
qed

text \<open>
  A black frame (all-zero mask, 720 by 1280) processed in Tracking, followed by a frame
  that shows a line: the black frame raises, and the frame after it is searched with
  Targeted Search only.
\<close>

theorem tracking_frame_then_targeted_search_witness:
  "equal_channels (zero_mask 720 1280) \<and>
   subsequent_frame_pixels (zero_mask 720 1280) (0, 0, 200) (0, 0, 900) = ([], []) \<and>
   snd (process_image exact_fit line_col1
          \<lparr> lanes_detected = Some True, left_fit = Some (0, 0, 200), right_fit = Some (0, 0, 900) \<rparr>
          (zero_mask 720 1280)) = Inl TypeError \<and>
   lanes_detected (tracker_after exact_fit line_col1
          \<lparr> lanes_detected = Some True, left_fit = Some (0, 0, 200), right_fit = Some (0, 0, 900) \<rparr>
          (zero_mask 720 1280)) = Some True \<and>
   fst (process_image exact_fit line_col1
          (tracker_after exact_fit line_col1
             \<lparr> lanes_detected = Some True, left_fit = Some (0, 0, 200), right_fit = Some (0, 0, 900) \<rparr>
             (zero_mask 720 1280))
          line_col0) = [TargetedSearch]"
proof -
  let ?s = "\<lparr> lanes_detected = Some True, left_fit = Some (0, 0, 200), right_fit = Some (0, 0, 900) \<rparr>"
  have e: "equal_channels (zero_mask 720 1280)"
    by (rule equal_channels_zero_mask)
  have p: "subsequent_frame_pixels (zero_mask 720 1280) (0, 0, 200) (0, 0, 900) = ([], [])"
    by (simp add: subsequent_frame_pixels_def nonzero_zero_mask)
  have x: "snd (process_image exact_fit line_col1 ?s (zero_mask 720 1280)) = Inl TypeError"
    by (simp add: process_image_tracking targeted_zero_mask)
  show ?thesis
    using tracking_frame_then_targeted_search[where pf = exact_fit and g = line_col1
        and s = ?s and m = "zero_mask 720 1280" and lf = "(0, 0, 200)" and rf = "(0, 0, 900)"
        and m' = line_col0, OF e]
      e p x
    by simp
qed

text \<open>
  C2. The code does not do what the claim says: the fits are not guarded by the sample
  count. On the all-zero mask both pixel sets are empty and \<open>np.polyfit\<close> raises
  \<open>TypeError\<close>, in Tracking with any stored fits and any module-level image, and in
  Searching when the module-level image is all zero as well; \<open>process_image\<close> does not
  return.
\<close>

theorem all_zero_mask_raises:
  assumes "1 \<le> h" and "2 \<le> w"
  shows "process_image pf g \<lparr> lanes_detected = Some True, left_fit = Some lf, right_fit = Some rf \<rparr>
           (zero_mask h w) = ([TargetedSearch], Inl TypeError) \<and>
         process_image pf (zero_mask h w) initial_tracker (zero_mask h w) =
           ([WindowSearch], Inl TypeError)"
proof -
  have i: "lanes_detected initial_tracker = None"
    by (simp add: initial_tracker_def)
  show ?thesis
    by (simp add: process_image_tracking process_image_searching[OF i]
        targeted_zero_mask[OF assms] window_zero_mask[OF assms nonzero_zero_mask])
qed

text \<open>The all-zero mask of a 720 by 1280 frame.\<close>

theorem all_zero_mask_raises_witness:
  "process_image exact_fit (zero_mask 720 1280)
      \<lparr> lanes_detected = Some True, left_fit = Some (0, 0, 200), right_fit = Some (0, 0, 900) \<rparr>
      (zero_mask 720 1280) = ([TargetedSearch], Inl TypeError) \<and>
   process_image exact_fit (zero_mask 720 1280) initial_tracker (zero_mask 720 1280) =
      ([WindowSearch], Inl TypeError)"
  using all_zero_mask_raises[of 720 1280 exact_fit "zero_mask 720 1280" "(0, 0, 200)" "(0, 0, 900)"]
  by simp

text \<open>
  C3. The code does not do what the claim says, by the defect of C2. On the masks
  \<open>undist_pipeline_warp\<close> returns (three equal channels) a frame processed in Tracking
  whose validation fails has an empty pixel set, and the unguarded \<open>np.polyfit\<close> raises:
  \<open>process_image\<close> returns no frame, the tracker does not go to Searching
  (\<open>lanes_detected\<close> is still \<open>True\<close>) and both stored fits are kept as they were.
\<close>

theorem failed_validation_raises_and_keeps_tracker:
  assumes "equal_channels m" and "lanes_detected s = Some True"
    and "left_fit s = Some lf" and "right_fit s = Some rf"
    and "\<not> (1 < length (fst (subsequent_frame_pixels m lf rf)) \<and>
            1 < length (snd (subsequent_frame_pixels m lf rf)))"
  shows "(\<exists>e. process_image pf g s m = ([TargetedSearch], Inl e)) \<and>
         lanes_detected (tracker_after pf g s m) = Some True \<and>
         left_fit (tracker_after pf g s m) = Some lf \<and>
         right_fit (tracker_after pf g s m) = Some rf"
  using failing_tracking_frame[OF assms, of pf g] assms(2-4) by simp

text \<open>
  A frame that shows the right line only (27 entries within the margin of the right
  prior, none within the margin of the left prior), processed in Tracking.
\<close>

theorem failed_validation_raises_and_keeps_tracker_witness:
  "equal_channels right_line_only \<and>
   length (fst (subsequent_frame_pixels right_line_only (0, 0, 10) (0, 0, 120))) = 0 \<and>
   length (snd (subsequent_frame_pixels right_line_only (0, 0, 10) (0, 0, 120))) = 27 \<and>
   process_image exact_fit right_line_only
      \<lparr> lanes_detected = Some True, left_fit = Some (0, 0, 10), right_fit = Some (0, 0, 120) \<rparr>
      right_line_only = ([TargetedSearch], Inl TypeError) \<and>
   tracker_after exact_fit right_line_only
      \<lparr> lanes_detected = Some True, left_fit = Some (0, 0, 10), right_fit = Some (0, 0, 120) \<rparr>
      right_line_only =
     \<lparr> lanes_detected = Some True, left_fit = Some (0, 0, 10), right_fit = Some (0, 0, 120) \<rparr>"
proof -
  let ?s = "\<lparr> lanes_detected = Some True, left_fit = Some (0, 0, 10), right_fit = Some (0, 0, 120) \<rparr>"
  have l: "length (fst (subsequent_frame_pixels right_line_only (0, 0, 10) (0, 0, 120))) = 0"
    by (simp add: targeted_pixels_right_line_only)
  have r: "length (snd (subsequent_frame_pixels right_line_only (0, 0, 10) (0, 0, 120))) = 27"
    by (simp add: targeted_pixels_right_line_only nonzero_right_line_only)
  have x: "process_image exact_fit right_line_only ?s right_line_only =
             ([TargetedSearch], Inl TypeError)"
    by (simp add: process_image_tracking targeted_right_line_only)
  have h: "\<not> (1 < length (fst (subsequent_frame_pixels right_line_only (0, 0, 10) (0, 0, 120))) \<and>
              1 < length (snd (subsequent_frame_pixels right_line_only (0, 0, 10) (0, 0, 120))))"
    using l by simp
  have t: "tracker_after exact_fit right_line_only ?s right_line_only = ?s"
    using failed_validation_raises_and_keeps_tracker[where pf = exact_fit and g = right_line_only
        and s = ?s and m = right_line_only and lf = "(0, 0, 10)" and rf = "(0, 0, 120)",
        OF equal_channels_right_line_only _ _ _ h]
    by (cases "tracker_after exact_fit right_line_only ?s right_line_only") simp
  show ?thesis
    using equal_channels_right_line_only l r x t by simp
qed




text \<open>
  C5, as the code has it. In Targeted Search an entry (y, x) of the mask's nonzero
  entries is in the left pixel set exactly when x is strictly less than \<open>margin\<close> away
  from the left prior curve at y, and in the right pixel set exactly when it is strictly
  less than \<open>margin\<close> away from the right prior curve: an entry at distance exactly
  \<open>margin\<close> is left out.
\<close>

theorem targeted_search_strict_margin:
  "((y, x) \<in> set (fst (subsequent_frame_pixels m lf rf)) \<longleftrightarrow>
      (y, x) \<in> set (nonzero m) \<and> \<bar>real x - poly_at lf (real y)\<bar> < real_of_int margin) \<and>
   ((y, x) \<in> set (snd (subsequent_frame_pixels m lf rf)) \<longleftrightarrow>
      (y, x) \<in> set (nonzero m) \<and> \<bar>real x - poly_at rf (real y)\<bar> < real_of_int margin)"
  by (auto simp: subsequent_frame_pixels_def Let_def near_fit_def margin_def)

text \<open>
  The pixel of row 1, column 0 is 99 away from the left prior curve \<open>x = 99\<close> and 100
  away from the right prior curve \<open>x = 100\<close>: it is in the left set and not in the right.
\<close>

theorem targeted_search_strict_margin_witness:
  "(1, 0) \<in> set (fst (subsequent_frame_pixels (Color [[(0, 0, 0), (0, 0, 0)], [(255, 255, 255), (0, 0, 0)]])
                        (0, 0, 99) (0, 0, 100))) \<and>
   (1, 0) \<notin> set (snd (subsequent_frame_pixels (Color [[(0, 0, 0), (0, 0, 0)], [(255, 255, 255), (0, 0, 0)]])
                        (0, 0, 99) (0, 0, 100)))"
  using targeted_search_strict_margin
          [of 1 0 "Color [[(0, 0, 0), (0, 0, 0)], [(255, 255, 255), (0, 0, 0)]]" "(0, 0, 99)" "(0, 0, 100)"]
  by (simp add: nonzero_def color_entries_def enumerate_eq_zip poly_at_def margin_def)

text \<open>
  C5 as stated fails: the active pixel of row 1, column 0 is exactly \<open>margin\<close> away
  from the left prior curve \<open>x = 100\<close>, and it is not in the left pixel set.
\<close>

theorem boundary_pixel_excluded:
  "(1, 0) \<in> set (nonzero (Color [[(0, 0, 0), (0, 0, 0)], [(255, 255, 255), (0, 0, 0)]])) \<and>
   \<bar>real 0 - poly_at (0, 0, 100) (real 1)\<bar> = real_of_int margin \<and>
   (1, 0) \<notin> set (fst (subsequent_frame_pixels
                        (Color [[(0, 0, 0), (0, 0, 0)], [(255, 255, 255), (0, 0, 0)]])
                        (0, 0, 100) (0, 0, 100)))"
  by (simp add: nonzero_def color_entries_def enumerate_eq_zip subsequent_frame_pixels_def
      Let_def near_fit_def margin_def poly_at_def)

text \<open>
  C6. For the rows \<open>0, \<dots>, h - 1\<close>, when the metric re-fits of both lines have a nonzero
  leading coefficient, the reported curvature is half the sum of the two radii, each
  computed from its metric re-fit by the specification's formula at the bottom row
  \<open>h - 1\<close> (in metres, \<open>(h - 1) * ym_per_pix\<close>), divided by 1000 and rounded to one
  decimal before the two are added. A frame of one row is the exception: its only
  \<open>y\<close> is 0 and \<open>np.polyfit\<close> raises \<open>LinAlgError\<close>.
\<close>

theorem curvature_is_mean_of_rounded_radii:
  assumes "0 < h" and "ploty = map real [0..<h]"
    and "length leftx = h" and "length rightx = h"
    and "pf (map (\<lambda>y. y * ym_per_pix) ploty) (map (\<lambda>x. x * xm_per_pix) leftx) = (al, bl, cl)"
    and "pf (map (\<lambda>y. y * ym_per_pix) ploty) (map (\<lambda>x. x * xm_per_pix) rightx) = (ar, br, cr)"
    and "al \<noteq> 0" and "ar \<noteq> 0"
  shows "calculate_curvature pf midoffset leftx rightx ploty =
           (if h = 1 then Inl LinAlgError
            else Inr (round1 (100 * real_of_int midoffset * xm_per_pix),
                   Fin ((round1 (radius_of_curvature ar br (real (h - 1) * ym_per_pix) / 1000) +
                         round1 (radius_of_curvature al bl (real (h - 1) * ym_per_pix) / 1000)) / 2)))"
proof (cases "h = 1")
  case True
  have "ploty \<noteq> []" and "length leftx = length ploty" and "list_all (\<lambda>v. v = 0) ploty"
    using True assms(2,3) by simp_all
  then show ?thesis
    using True by (simp add: calculate_curvature_all_zero)
next
  case False
  then have h: "1 < h" using assms(1) by simp
  have ne: "ploty \<noteq> []" using assms(1,2) by simp
  have nz: "\<not> list_all (\<lambda>v. v = 0) ploty"
    using ploty_not_all_zero[OF h] assms(2) by simp
  have len: "length ploty = h" using assms(2) by simp
  have mx: "Max (set ploty) = real (h - 1)"
    using Max_ploty[OF assms(1)] assms(2) by simp
  show ?thesis
    using False ne nz len assms(3-8)
    by (simp add: calculate_curvature_def polyfit_def Let_def mx curverad_cases all_zero_scaled)
qed

text \<open>
  Three rows; the left line is \<open>x = 200 + (y - 2)\<^sup>2 / 6300\<close> and the right line is
  \<open>x = 900 + (y - 2)\<^sup>2 / 6900\<close>. The radii are 1034.6 m and 1133.2 m; rounded to 1.0 km
  and 1.1 km they average to 1.05 km, while their mean rounds to 1.1 km.
\<close>

theorem curvature_is_mean_of_rounded_radii_witness:
  "calculate_curvature exact_fit 0 [200 + 4 / 6300, 200 + 1 / 6300, 200]
      [900 + 4 / 6900, 900 + 1 / 6900, 900] [0, 1, 2] = Inr (0, Fin (21 / 20)) \<and>
   round1 ((radius_of_curvature (74 / 153125) (- (37 / 459375)) (real (3 - 1) * ym_per_pix) +
            radius_of_curvature (222 / 503125) (- (37 / 503125)) (real (3 - 1) * ym_per_pix))
           / 2 / 1000) = 11 / 10"
proof -
  have h1: "0 < (3::nat)" by simp
  have h2: "[0, 1, 2] = map real [0..<3]" by (simp add: upt_3)
  have h3: "length [200 + 4 / 6300, 200 + 1 / 6300, 200 :: real] = 3" by simp
  have h4: "length [900 + 4 / 6900, 900 + 1 / 6900, 900 :: real] = 3" by simp
  have h7: "(74 / 153125 :: real) \<noteq> 0" by simp
  have h8: "(222 / 503125 :: real) \<noteq> 0" by simp
  have h9: "(if (3::nat) = 1 then x else y) = y" for x y :: "error + real \<times> npfloat"
    by simp
  have "calculate_curvature exact_fit 0 [200 + 4 / 6300, 200 + 1 / 6300, 200]
          [900 + 4 / 6900, 900 + 1 / 6900, 900] [0, 1, 2] =
        Inr (round1 (100 * real_of_int 0 * xm_per_pix),
             Fin ((round1 (radius_of_curvature (222 / 503125) (- (37 / 503125))
                             (real (3 - 1) * ym_per_pix) / 1000) +
                   round1 (radius_of_curvature (74 / 153125) (- (37 / 459375))
                             (real (3 - 1) * ym_per_pix) / 1000)) / 2))"
    using curvature_is_mean_of_rounded_radii[where pf = exact_fit and h = 3,
        OF h1 h2 h3 h4 left_metric right_metric h7 h8, of 0]
    by (simp only: h9)
  then have "calculate_curvature exact_fit 0 [200 + 4 / 6300, 200 + 1 / 6300, 200]
          [900 + 4 / 6900, 900 + 1 / 6900, 900] [0, 1, 2] = Inr (0, Fin ((11 / 10 + 1) / 2))"
    by (simp only: radius_left radius_right round_left round_right round_zero)
  moreover have "round1 ((radius_of_curvature (74 / 153125) (- (37 / 459375)) (real (3 - 1) * ym_per_pix) +
            radius_of_curvature (222 / 503125) (- (37 / 503125)) (real (3 - 1) * ym_per_pix))
           / 2 / 1000) = 11 / 10"
    by (simp only: radius_left radius_right round_avg)
  ultimately show ?thesis by simp
qed

text \<open>
  C7, as the code has it. The radius is computed with no test on the leading
  coefficient: for \<open>a = 0\<close> the divisor is zero and numpy's division gives infinity, and
  for \<open>a \<noteq> 0\<close> the radius is the formula's value, at least \<open>1 / |2 a|\<close> and so beyond any
  bound for small \<open>a\<close>. When the metric re-fit of either line has leading coefficient 0,
  \<open>calculate_curvature\<close> reports an infinite curvature (unless every \<open>y\<close> is 0, where
  \<open>np.polyfit\<close> raises \<open>LinAlgError\<close>).
\<close>

theorem curverad_unguarded:
  "curverad (a, b, c) y = (if a = 0 then PosInf else Fin (radius_of_curvature a b y)) \<and>
   (a \<noteq> 0 \<longrightarrow> 1 / \<bar>2 * a\<bar> \<le> radius_of_curvature a b y) \<and>
   (ploty \<noteq> [] \<and> length leftx = length ploty \<and> length rightx = length ploty \<and>
    (fst (pf (map (\<lambda>y. y * ym_per_pix) ploty) (map (\<lambda>x. x * xm_per_pix) leftx)) = 0 \<or>
     fst (pf (map (\<lambda>y. y * ym_per_pix) ploty) (map (\<lambda>x. x * xm_per_pix) rightx)) = 0) \<longrightarrow>
    calculate_curvature pf midoffset leftx rightx ploty =
      (if list_all (\<lambda>v. v = 0) ploty then Inl LinAlgError
       else Inr (round1 (100 * real_of_int midoffset * xm_per_pix), PosInf)))"
  using curverad_cases[of a b c y] radius_lower_bound[of a b y]
    curvature_inf[of ploty leftx rightx pf midoffset]
    calculate_curvature_all_zero[of ploty leftx pf midoffset rightx]
  by (cases "list_all (\<lambda>v. v = 0) ploty") auto

text \<open>
  A leading coefficient of \<open>1/2000000\<close> gives a radius of 1000 km; two vertical lines
  give an infinite curvature.
\<close>

theorem curverad_unguarded_witness:
  "curverad (1 / 2000000, 0, 0) 0 = Fin 1000000 \<and>
   1 / \<bar>2 * (1 / 2000000 :: real)\<bar> \<le> radius_of_curvature (1 / 2000000) 0 0 \<and>
   calculate_curvature exact_fit (- 1) [0, 0] [0, 0] [0, 1] = Inr (- (1 / 2), PosInf)"
  using curverad_unguarded[of "1 / 2000000" 0 0 0 "[0, 1]" "[0, 0]" "[0, 0]" exact_fit "- 1"]
  by (simp add: radius_of_curvature_def exact_fit_def round1_def rint_def xm_per_pix_def)

text \<open>
  C7 as stated fails: for a fit with leading coefficient 0 the radius is the result of a
  division by \<open>|2 * 0|\<close>, which is infinity.
\<close>

theorem zero_leading_coefficient_divides_by_zero:
  "curverad (0, 0, 640) (719 * ym_per_pix) = np_divide 1 \<bar>2 * 0\<bar> \<and>
   np_divide 1 \<bar>2 * 0\<bar> = PosInf"
  by (simp add: curverad_def np_divide_def)




text \<open>
  C10. On a frame processed in Searching whose Window Search fits are valid,
  \<open>process_image\<close> calls Window Search and then Targeted Search on the same mask, with
  the window fits as priors. If Targeted Search raises, the frame raises; if it returns,
  the stored flag and fits are the ones it returned, and the overlay is rendered from
  its fits and its offset.
\<close>

theorem searching_frame_refits_with_targeted_search:
  assumes "lanes_detected s = None"
    and "sliding_window pf g m = Inr (True, off, lf, rf)"
  shows "fst (process_image pf g s m) = [WindowSearch, TargetedSearch] \<and>
         (\<forall>e. subsequent_frame pf m (Some lf) (Some rf) = Inl e \<longrightarrow>
              snd (process_image pf g s m) = Inl e) \<and>
         (\<forall>d' off' lf' rf'.
            subsequent_frame pf m (Some lf) (Some rf) = Inr (d', off', lf', rf') \<longrightarrow>
            (\<exists>position curvature.
               calculate_curvature pf off' (map (poly_at lf') (map real [0..<shape0 m]))
                 (map (poly_at rf') (map real [0..<shape0 m])) (map real [0..<shape0 m]) =
                 Inr (position, curvature) \<and>
               snd (process_image pf g s m) =
                 Inr (\<lparr> lanes_detected = Some d', left_fit = Some lf', right_fit = Some rf' \<rparr>,
                      Overlaid (map (poly_at lf') (map real [0..<shape0 m]))
                        (map (poly_at rf') (map real [0..<shape0 m])) (map real [0..<shape0 m])
                        position curvature)))"
proof -
  have pos: "1 < shape0 m"
    using assms(2) by (rule sliding_window_rows)
  have calls: "fst (process_image pf g s m) = [WindowSearch, TargetedSearch]"
    by (simp add: process_image_searching[OF assms(1)] assms(2) split: sum.splits prod.splits)
  have err: "subsequent_frame pf m (Some lf) (Some rf) = Inl e \<Longrightarrow>
             snd (process_image pf g s m) = Inl e" for e
    by (simp add: process_image_searching[OF assms(1)] assms(2))
  have ok: "\<exists>position curvature.
               calculate_curvature pf off' (map (poly_at lf') (map real [0..<shape0 m]))
                 (map (poly_at rf') (map real [0..<shape0 m])) (map real [0..<shape0 m]) =
                 Inr (position, curvature) \<and>
               snd (process_image pf g s m) =
                 Inr (\<lparr> lanes_detected = Some d', left_fit = Some lf', right_fit = Some rf' \<rparr>,
                      Overlaid (map (poly_at lf') (map real [0..<shape0 m]))
                        (map (poly_at rf') (map real [0..<shape0 m])) (map real [0..<shape0 m])
                        position curvature)"
    if "subsequent_frame pf m (Some lf) (Some rf) = Inr (d', off', lf', rf')" for d' off' lf' rf'
    using overlay_returns[OF pos, of pf off' "poly_at lf'" "poly_at rf'"] that
    by (auto simp: process_image_searching[OF assms(1)] assms(2))
  show ?thesis
    using calls err ok by blast
qed

text \<open>
  The first frame of a stream: the module-level image has its line in column 1, the
  frame has it in column 0. Window Search fits \<open>x = 1\<close>, Targeted Search re-fits
  \<open>x = 0\<close>, and the re-fit is what is stored and rendered.
\<close>

theorem searching_frame_refits_with_targeted_search_witness:
  "lanes_detected initial_tracker = None \<and>
   sliding_window exact_fit line_col1 line_col0 = Inr (True, - 1, (0, 0, 1), (0, 0, 1)) \<and>
   subsequent_frame exact_fit line_col0 (Some (0, 0, 1)) (Some (0, 0, 1)) =
     Inr (True, - 1, (0, 0, 0), (0, 0, 0)) \<and>
   process_image exact_fit line_col1 initial_tracker line_col0 =
     ([WindowSearch, TargetedSearch],
      Inr (\<lparr> lanes_detected = Some True, left_fit = Some (0, 0, 0), right_fit = Some (0, 0, 0) \<rparr>,
           Overlaid [0, 0, 0, 0, 0, 0, 0, 0, 0] [0, 0, 0, 0, 0, 0, 0, 0, 0]
             [0, 1, 2, 3, 4, 5, 6, 7, 8] (- (1 / 2)) PosInf))"
proof -
  have a: "lanes_detected initial_tracker = None"
    by (simp add: initial_tracker_def)
  show ?thesis
    using searching_frame_refits_with_targeted_search[OF a window_col1_col0] a
      window_col1_col0 process_image_col0
    by (simp add: targeted_col0)
qed

end
